theory Spec2Isabelle
  imports Complex_Main "HOL-Library.Stream"
begin

section \<open>Numbers, exceptions and the random generator\<close>

text \<open>
  The Monte Carlo generator of the tutorial notebook computes with Python floats and
  numpy scalars. The model computes with real numbers. Two things that the floats do and
  the reals do not are written out:
  \<^item> Python's own arithmetic raises (\<open>ZeroDivisionError\<close> on a zero divisor,
    \<open>ValueError\<close> from \<open>math.acosh\<close> below 1, \<open>TypeError\<close> on a product with
    \<open>None\<close>): these are values of \<open>error\<close>;
  \<^item> numpy's scalar arithmetic does not raise on a zero divisor or on \<open>log 0\<close>: it
    warns and returns \<open>inf\<close> or \<open>nan\<close>. A numpy scalar is a \<open>real option\<close>, with
    \<open>None\<close> for a value that is not finite.
  Rounding is modelled at one place only, the argument of \<open>math.acosh\<close> (see
  \<open>build_observables\<close>); overflow and underflow are not modelled, so that the only values that are
  not finite are the \<open>inf\<close> of a division by zero or of \<open>log 0\<close> and the \<open>nan\<close>
  that follow from them or from a square root or logarithm of a negative number. No
  operation of the notebook divides by such a value.
\<close>

datatype error = ZeroDivisionError | ValueError | TypeError

type_synonym npfloat = "real option"

definition py_div :: "real \<Rightarrow> real \<Rightarrow> error + real" where
  "py_div a b = (if b = 0 then Inl ZeroDivisionError else Inr (a / b))"

text \<open>
  \<open>pow(x, a)\<close> on Python floats: \<open>pow(x, 0.0)\<close> is \<open>1.0\<close> for every \<open>x\<close>, zero to
  a negative power raises. The bases that reach it are a quotient of squares and a power
  of it, so never negative.
\<close>

definition py_pow :: "real \<Rightarrow> real \<Rightarrow> error + real" where
  "py_pow x a =
     (if a = 0 then Inr 1
      else if x = 0 then (if a < 0 then Inl ZeroDivisionError else Inr 0)
      else Inr (x powr a))"

definition np_log :: "real \<Rightarrow> npfloat" where
  "np_log x = (if x \<le> 0 then None else Some (ln x))"

definition np_sqrt :: "real \<Rightarrow> npfloat" where
  "np_sqrt x = (if x < 0 then None else Some (sqrt x))"

definition np_mul :: "npfloat \<Rightarrow> npfloat \<Rightarrow> npfloat" where
  "np_mul a b = (case (a, b) of (Some x, Some y) \<Rightarrow> Some (x * y) | _ \<Rightarrow> None)"

definition np_add :: "npfloat \<Rightarrow> npfloat \<Rightarrow> npfloat" where
  "np_add a b = (case (a, b) of (Some x, Some y) \<Rightarrow> Some (x + y) | _ \<Rightarrow> None)"

definition np_sub :: "npfloat \<Rightarrow> npfloat \<Rightarrow> npfloat" where
  "np_sub a b = (case (a, b) of (Some x, Some y) \<Rightarrow> Some (x - y) | _ \<Rightarrow> None)"

definition np_div :: "npfloat \<Rightarrow> npfloat \<Rightarrow> npfloat" where
  "np_div a b =
     (case (a, b) of (Some x, Some y) \<Rightarrow> (if y = 0 then None else Some (x / y)) | _ \<Rightarrow> None)"

definition np_abs :: "npfloat \<Rightarrow> npfloat" where
  "np_abs a = map_option abs a"

text \<open>
  The global generator behind \<open>np.random.uniform()\<close> is the stream of the numbers it
  will return; a draw takes the head and leaves the tail.
\<close>

type_synonym rng = "real stream"

definition uniform :: "rng \<Rightarrow> real \<times> rng" where
  "uniform g = (shd g, stl g)"

section \<open>The phase-space sampler\<close>

record ps_point =
  ps_s :: real
  ps_t :: real
  ps_u :: real
  ps_x1 :: real
  ps_x2 :: real
  ps_jacobian :: npfloat

definition hadronic_ps_gen :: "real \<Rightarrow> real \<Rightarrow> rng \<Rightarrow> (error + ps_point) \<times> rng" where
  "hadronic_ps_gen mmin mmax g0 =
     (let smin = mmin * mmin;
          smax = mmax * mmax;
          (r1, g1) = uniform g0;
          (r2, g2) = uniform g1;
          (r3, g3) = uniform g2
      in ((case py_div smin smax of Inl e \<Rightarrow> Inl e | Inr tau0 \<Rightarrow>
          (case py_pow tau0 r1 of Inl e \<Rightarrow> Inl e | Inr tau \<Rightarrow>
          (case py_pow tau (1 - r2) of Inl e \<Rightarrow> Inl e | Inr y \<Rightarrow>
          (case py_div tau y of Inl e \<Rightarrow> Inl e | Inr x2 \<Rightarrow>
            (let x1 = y;
                 s = tau * smax;
                 jacobian = np_mul (np_mul (np_mul (Some tau) (np_log tau0)) (np_log tau0)) (Some r1);
                 cos_theta = 2 * r3 - 1;
                 jacobian = np_mul jacobian (Some 2);
                 t = - 0.5 * s * (1 - cos_theta);
                 u = - 0.5 * s * (1 + cos_theta);
                 jacobian = np_mul jacobian (Some (2 * pi))
             in Inr \<lparr>ps_s = s, ps_t = t, ps_u = u, ps_x1 = x1, ps_x2 = x2,
                      ps_jacobian = jacobian\<rparr>))))),
          g3))"

text \<open>A draw of \<open>np.random.uniform()\<close> lies in \<open>[0, 1)\<close>.\<close>

definition unit_draw :: "real \<Rightarrow> bool" where
  "unit_draw r \<longleftrightarrow> 0 \<le> r \<and> r < 1"



section \<open>The matrix element\<close>

text \<open>What a Python function hands back: \<open>None\<close> or a float.\<close>

datatype py_value = PyNone | PyFloat real

text \<open>
  The function as the notebook has it: it binds \<open>alpha0\<close> and ends in a bare
  \<^verbatim>\<open>return\<close> (the expression is left as the comment
  \<^verbatim>\<open># INSERT HERE THE SQUARED MATRIX ELEMENT\<close>), so that it returns \<open>None\<close> for every
  argument and raises nothing.
\<close>

definition photon_photon_matrix_element :: "real \<Rightarrow> real \<Rightarrow> real \<Rightarrow> error + py_value" where
  "photon_photon_matrix_element s t u = (let alpha0 = 1 / 137.03599911 :: real in Inr PyNone)"

section \<open>The event accumulator\<close>

record observables =
  ptl :: npfloat
  mll :: npfloat
  yll :: npfloat
  ylp :: npfloat
  ylm :: npfloat

text \<open>
  \<open>math.acosh\<close> raises below 1 and passes \<open>inf\<close> and \<open>nan\<close> through. Its argument
  here is a quotient of two numpy square roots, so a value that is not finite is \<open>+inf\<close>
  or \<open>nan\<close>, never \<open>-inf\<close>.
\<close>

definition math_acosh :: "npfloat \<Rightarrow> error + npfloat" where
  "math_acosh a =
     (case a of None \<Rightarrow> Inr None
      | Some x \<Rightarrow> if x < 1 then Inl ValueError else Inr (Some (arcosh x)))"

text \<open>
  The lines under \<^verbatim>\<open># build observables\<close>, in the source's order. Over the reals the
  quotient \<open>0.5 \<sqdot> mll / ptl\<close> is at least 1 wherever \<open>t, u < 0\<close>, but the floats round,
  and at points that the loop itself samples the quotient of the floats lies just below
  1, where \<open>math.acosh\<close> raises. The rounding of this quotient therefore belongs to the
  model: \<open>fl\<close> takes the exact quotient to the float that the code hands to
  \<open>math.acosh\<close>, and nothing is assumed of it. A quotient that is not finite stays so.
\<close>

definition build_observables :: "(real \<Rightarrow> real) \<Rightarrow> ps_point \<Rightarrow> error + observables" where
  "build_observables fl p =
     (case py_div (ps_t p * ps_u p) (ps_s p) of Inl e \<Rightarrow> Inl e | Inr q \<Rightarrow>
       (let pt = np_sqrt q;
            m = np_sqrt (ps_s p)
        in (case py_div (ps_x1 p) (ps_x2 p) of Inl e \<Rightarrow> Inl e | Inr xr \<Rightarrow>
         (let y = np_mul (Some 0.5) (np_log xr)
          in (case math_acosh (map_option fl (np_div (np_mul (Some 0.5) m) pt)) of
                Inl e \<Rightarrow> Inl e | Inr a1 \<Rightarrow>
             (case math_acosh (map_option fl (np_div (np_mul (Some 0.5) m) pt)) of
                Inl e \<Rightarrow> Inl e | Inr a2 \<Rightarrow>
               Inr \<lparr>ptl = pt, mll = m, yll = y,
                    ylp = np_abs (np_add y a1), ylm = np_abs (np_sub y a2)\<rparr>))))))"

text \<open>
  The interpolation grid belongs to an external library. The model keeps what the
  notebook hands to it: the arguments of \<open>Grid.create\<close> and, in order, the arguments of
  every \<open>grid.fill\<close>.
\<close>

record fill_call =
  fc_x1 :: real
  fc_x2 :: real
  fc_q2 :: real
  fc_order :: nat
  fc_observable :: npfloat
  fc_lumi :: nat
  fc_weight :: npfloat

record grid =
  lumi_entries :: "(int \<times> int \<times> real) list list"
  orders :: "(nat \<times> nat \<times> nat \<times> nat) list"
  bin_limits :: "real list"
  fills :: "fill_call list"

definition Grid_create ::
  "(int \<times> int \<times> real) list list \<Rightarrow> (nat \<times> nat \<times> nat \<times> nat) list \<Rightarrow> real list \<Rightarrow> grid" where
  "Grid_create lumi ords bins =
     \<lparr>lumi_entries = lumi, orders = ords, bin_limits = bins, fills = []\<rparr>"

definition Grid_fill :: "grid \<Rightarrow> fill_call \<Rightarrow> grid" where
  "Grid_fill gr f = gr\<lparr>fills := fills gr @ [f]\<rparr>"

text \<open>
  The library reads the sequence it is given as bin limits: two consecutive limits bound
  one bin.
\<close>

definition grid_bins :: "grid \<Rightarrow> (real \<times> real) list" where
  "grid_bins gr = zip (bin_limits gr) (tl (bin_limits gr))"

definition hbarc2 :: real where
  "hbarc2 = 389379372.1"

text \<open>
  One pass of the loop body after the sampler's call. The notebook marks two places for
  its reader to fill in, the cut expression and the body of the matrix element. Both are
  arguments here, so that what is proved of the loop holds for the notebook as it is
  (\<open>cuts_placeholder\<close> and \<open>photon_photon_matrix_element\<close> below and above) and for
  every way of filling it in: \<open>cuts\<close> is the condition on the observables that sends the
  trial to \<^verbatim>\<open>continue\<close>, \<open>me\<close> is the function called at
  \<^verbatim>\<open>weight = jacobian * photon_photon_matrix_element(s, u, t)\<close>. The product of a
  numpy scalar with \<open>None\<close> raises \<open>TypeError\<close>. The result is the \<open>grid.fill\<close> to
  make, if any.
\<close>

definition fill_trial ::
  "(real \<Rightarrow> real) \<Rightarrow> (observables \<Rightarrow> bool) \<Rightarrow> (real \<Rightarrow> real \<Rightarrow> real \<Rightarrow> error + py_value) \<Rightarrow> int
     \<Rightarrow> ps_point \<Rightarrow> error + fill_call option" where
  "fill_trial fl cuts me calls p =
     (case build_observables fl p of Inl e \<Rightarrow> Inl e | Inr obs \<Rightarrow>
     (case py_div hbarc2 (of_int calls) of Inl e \<Rightarrow> Inl e | Inr c \<Rightarrow>
       (let jacobian = np_mul (ps_jacobian p) (Some c)
        in if cuts obs then Inr None
           else (case me (ps_s p) (ps_u p) (ps_t p) of
                   Inl e \<Rightarrow> Inl e
                 | Inr PyNone \<Rightarrow> Inl TypeError
                 | Inr (PyFloat m) \<Rightarrow>
                     (let weight = np_mul jacobian (Some m);
                          q2 = 90 * 90
                      in Inr (Some \<lparr>fc_x1 = ps_x1 p, fc_x2 = ps_x2 p, fc_q2 = q2,
                                    fc_order = 0, fc_observable = np_abs (yll obs),
                                    fc_lumi = 0, fc_weight = weight\<rparr>))))))"

text \<open>
  The loop \<^verbatim>\<open>for _ in range(calls)\<close>, with the trials still to run as the recursion
  argument. An exception ends the loop; the grid, which the caller owns, keeps the fills
  made before it.
\<close>

fun fill_loop ::
  "(real \<Rightarrow> real) \<Rightarrow> (observables \<Rightarrow> bool) \<Rightarrow> (real \<Rightarrow> real \<Rightarrow> real \<Rightarrow> error + py_value) \<Rightarrow> int
     \<Rightarrow> nat \<Rightarrow> grid \<Rightarrow> rng \<Rightarrow> (error option \<times> grid) \<times> rng" where
  "fill_loop fl cuts me calls 0 gr g = ((None, gr), g)"
| "fill_loop fl cuts me calls (Suc n) gr g =
     (case hadronic_ps_gen 10 7000 g of
        (Inl e, g') \<Rightarrow> ((Some e, gr), g')
      | (Inr p, g') \<Rightarrow>
          (case fill_trial fl cuts me calls p of
             Inl e \<Rightarrow> ((Some e, gr), g')
           | Inr None \<Rightarrow> fill_loop fl cuts me calls n gr g'
           | Inr (Some f) \<Rightarrow> fill_loop fl cuts me calls n (Grid_fill gr f) g'))"

definition fill_grid ::
  "(real \<Rightarrow> real) \<Rightarrow> (observables \<Rightarrow> bool) \<Rightarrow> (real \<Rightarrow> real \<Rightarrow> real \<Rightarrow> error + py_value) \<Rightarrow> grid
     \<Rightarrow> int \<Rightarrow> rng \<Rightarrow> (error option \<times> grid) \<times> rng" where
  "fill_grid fl cuts me gr calls g = fill_loop fl cuts me calls (nat calls) gr g"

text \<open>
  \<open>np.arange(start, stop, step)\<close>: \<open>\<lceil>(stop - start) / step\<rceil>\<close> values
  \<open>start + i \<sqdot> step\<close>; the stop value is not among them.
\<close>

definition np_arange :: "real \<Rightarrow> real \<Rightarrow> real \<Rightarrow> real list" where
  "np_arange start stop step =
     map (\<lambda>i. start + real i * step) [0..<nat \<lceil>(stop - start) / step\<rceil>]"

text \<open>
  The two progress messages that \<open>generate_grid\<close> prints and the default
  \<open>SubgridParams\<close> that it passes on are left out.
\<close>

definition generate_grid ::
  "(real \<Rightarrow> real) \<Rightarrow> (observables \<Rightarrow> bool) \<Rightarrow> (real \<Rightarrow> real \<Rightarrow> real \<Rightarrow> error + py_value) \<Rightarrow> int
     \<Rightarrow> rng \<Rightarrow> (error + grid) \<times> rng" where
  "generate_grid fl cuts me calls g =
     (let lumi = [[(22, 22, 1)]];
          ords = [(0, 2, 0, 0)];
          bins = np_arange 0 2.4 0.1;
          gr = Grid_create lumi ords bins
      in (case fill_grid fl cuts me gr calls g of
            ((None, gr'), g') \<Rightarrow> (Inr gr', g')
          | ((Some e, gr'), g') \<Rightarrow> (Inl e, g')))"

text \<open>
  The cut expression as the notebook has it: an empty pair of parentheses, which Python
  reads as the empty tuple and therefore as false, so that no trial is cut.
\<close>

definition cuts_placeholder :: "observables \<Rightarrow> bool" where
  "cuts_placeholder obs = False"



section \<open>The sampler on valid input\<close>

lemma tau0_bounds:
  fixes mmin mmax :: real
  assumes "0 < mmin" "mmin < mmax"
  shows "0 < mmin * mmin / (mmax * mmax)" "mmin * mmin / (mmax * mmax) < 1"
proof -
  from assms have m: "0 < mmax" by linarith
  show "0 < mmin * mmin / (mmax * mmax)" using assms m by simp
  have "mmin * mmin < mmax * mmax" using assms by (simp add: mult_strict_mono)
  then show "mmin * mmin / (mmax * mmax) < 1" using m by simp
qed

lemma py_pow_pos: "0 < x \<Longrightarrow> py_pow x a = Inr (x powr a)"
  by (simp add: py_pow_def)

text \<open>With \<open>0 < mmin < mmax\<close> no division raises and the sampler returns this point.\<close>

lemma hadronic_ps_gen_valid:
  fixes mmin mmax r1 r2 r3 :: real
  assumes "0 < mmin" "mmin < mmax"
  defines "tau0 \<equiv> mmin * mmin / (mmax * mmax)"
  defines "tau \<equiv> tau0 powr r1"
  shows "hadronic_ps_gen mmin mmax (r1 ## r2 ## r3 ## g) =
           (Inr \<lparr>ps_s = tau * (mmax * mmax),
                 ps_t = - 0.5 * (tau * (mmax * mmax)) * (1 - (2 * r3 - 1)),
                 ps_u = - 0.5 * (tau * (mmax * mmax)) * (1 + (2 * r3 - 1)),
                 ps_x1 = tau powr (1 - r2),
                 ps_x2 = tau / tau powr (1 - r2),
                 ps_jacobian = Some (tau * ln tau0 * ln tau0 * r1 * 2 * (2 * pi))\<rparr>, g)"
proof -
  have t0: "0 < tau0" "tau0 < 1"
    unfolding tau0_def using tau0_bounds[OF assms(1,2)] by simp_all
  have t: "0 < tau" unfolding tau_def using t0 by simp
  have y: "tau powr (1 - r2) \<noteq> 0" using t by simp
  have m: "mmax * mmax \<noteq> 0" using assms by auto
  show ?thesis
    using t0 t y m
    by (simp add: hadronic_ps_gen_def uniform_def py_div_def py_pow_pos Let_def np_mul_def
        np_log_def flip: tau0_def tau_def)
qed

lemma hadronic_ps_gen_fields:
  fixes mmin mmax r1 r2 r3 :: real
  assumes "0 < mmin" "mmin < mmax"
  obtains p where
    "hadronic_ps_gen mmin mmax (r1 ## r2 ## r3 ## g) = (Inr p, g)"
    "ps_s p = (mmin * mmin / (mmax * mmax)) powr r1 * (mmax * mmax)"
    "ps_t p = - 0.5 * ps_s p * (1 - (2 * r3 - 1))"
    "ps_u p = - 0.5 * ps_s p * (1 + (2 * r3 - 1))"
    "ps_x1 p = ((mmin * mmin / (mmax * mmax)) powr r1) powr (1 - r2)"
    "ps_x2 p = (mmin * mmin / (mmax * mmax)) powr r1 / ps_x1 p"
    "ps_jacobian p =
       Some ((mmin * mmin / (mmax * mmax)) powr r1 * ln (mmin * mmin / (mmax * mmax)) *
             ln (mmin * mmin / (mmax * mmax)) * r1 * 2 * (2 * pi))"
  by (rule that[OF hadronic_ps_gen_valid[OF assms, of r1 r2 r3 g]])
     (simp_all only: ps_point.select_convs)

lemma mandelstam_cancel: "s + - 0.5 * s * (1 - c) + - 0.5 * s * (1 + c) = (0::real)"
  by (simp add: field_simps)

text \<open>
  C1. For every valid input \<open>0 < mmin < mmax\<close> and every draw \<open>r1, r2, r3\<close> in
  \<open>[0, 1)\<close> the sampler returns a point, with \<open>t = -0.5 s (1 - cos \<theta>)\<close> and
  \<open>u = -0.5 s (1 + cos \<theta>)\<close> for \<open>cos \<theta> = 2 r3 - 1\<close>, and \<open>s + t + u = 0\<close>. The
  sum is exact over the reals; the rounding of the floats is not part of the model.
\<close>

theorem hadronic_ps_gen_mandelstam_sum:
  fixes mmin mmax r1 r2 r3 :: real
  assumes "0 < mmin" "mmin < mmax" "unit_draw r1" "unit_draw r2" "unit_draw r3"
  shows "\<exists>p. hadronic_ps_gen mmin mmax (r1 ## r2 ## r3 ## g) = (Inr p, g) \<and>
             ps_t p = - 0.5 * ps_s p * (1 - (2 * r3 - 1)) \<and>
             ps_u p = - 0.5 * ps_s p * (1 + (2 * r3 - 1)) \<and>
             ps_s p + ps_t p + ps_u p = 0"
proof -
  obtain p where p: "hadronic_ps_gen mmin mmax (r1 ## r2 ## r3 ## g) = (Inr p, g)"
      "ps_t p = - 0.5 * ps_s p * (1 - (2 * r3 - 1))"
      "ps_u p = - 0.5 * ps_s p * (1 + (2 * r3 - 1))"
    by (rule hadronic_ps_gen_fields[OF assms(1,2)])
  have "ps_s p + ps_t p + ps_u p = 0"
    unfolding p(2,3) by (rule mandelstam_cancel)
  with p show ?thesis by blast
qed

theorem hadronic_ps_gen_mandelstam_sum_witness:
  "(0::real) < 10 \<and> (10::real) < 7000 \<and> unit_draw (1/2) \<and>
   (\<exists>p. hadronic_ps_gen 10 7000 (1/2 ## 1/2 ## 1/2 ## sconst 0) = (Inr p, sconst 0) \<and>
        ps_t p = - 0.5 * ps_s p * (1 - (2 * (1/2) - 1)) \<and>
        ps_u p = - 0.5 * ps_s p * (1 + (2 * (1/2) - 1)) \<and>
        ps_s p + ps_t p + ps_u p = 0)"
proof -
  have u: "unit_draw (1/2)" by (simp add: unit_draw_def)
  have "(0::real) < 10" "(10::real) < 7000" by simp_all
  from hadronic_ps_gen_mandelstam_sum[OF this u u u, of "sconst 0"] u show ?thesis by simp
qed

lemma hadronic_ps_gen_positive:
  fixes mmin mmax r1 r2 r3 :: real
  assumes "0 < mmin" "mmin < mmax"
  obtains p where
    "hadronic_ps_gen mmin mmax (r1 ## r2 ## r3 ## g) = (Inr p, g)"
    "0 < ps_s p" "0 < ps_x1 p" "0 < ps_x2 p"
    "ps_t p = - 0.5 * ps_s p * (1 - (2 * r3 - 1))"
    "ps_u p = - 0.5 * ps_s p * (1 + (2 * r3 - 1))"
    "\<exists>j. ps_jacobian p = Some j"
proof -
  define tau where "tau = (mmin * mmin / (mmax * mmax)) powr r1"
  obtain p where p: "hadronic_ps_gen mmin mmax (r1 ## r2 ## r3 ## g) = (Inr p, g)"
    "ps_s p = tau * (mmax * mmax)"
    "ps_t p = - 0.5 * ps_s p * (1 - (2 * r3 - 1))"
    "ps_u p = - 0.5 * ps_s p * (1 + (2 * r3 - 1))"
    "ps_x1 p = tau powr (1 - r2)"
    "ps_x2 p = tau / ps_x1 p"
    "\<exists>j. ps_jacobian p = Some j"
    unfolding tau_def by (rule hadronic_ps_gen_fields[OF assms, of r1 r2 r3 g]) blast
  have "0 < mmin * mmin / (mmax * mmax)" by (rule tau0_bounds(1)[OF assms])
  then have "mmin * mmin / (mmax * mmax) \<noteq> 0" by (rule less_imp_neq[THEN not_sym])
  then have t: "0 < tau" unfolding tau_def by simp
  have m: "0 < mmax * mmax" using assms by simp
  have s: "0 < ps_s p" unfolding p(2) using t m by simp
  have x1: "0 < ps_x1 p" unfolding p(5) using t by simp
  have x2: "0 < ps_x2 p" unfolding p(6) using t x1 by simp
  show thesis using that[OF p(1) s x1 x2 p(3,4,7)] .
qed

lemma powr_unit_bounds:
  fixes x a :: real
  assumes "0 < x" "x \<le> 1" "0 \<le> a" "a \<le> 1"
  shows "0 < x powr a" "x powr a \<le> 1" "x \<le> x powr a"
proof -
  show "0 < x powr a" using assms by simp
  show "x powr a \<le> 1" using assms by (simp add: powr_le1)
  have "x powr 1 \<le> x powr a" using assms by (intro powr_mono') auto
  then show "x \<le> x powr a" using assms by simp
qed

text \<open>
  C5. For every valid input \<open>0 < mmin < mmax\<close> and every draw \<open>r1, r2\<close> in \<open>[0, 1)\<close>
  the momentum fractions that the sampler returns satisfy \<open>0 < x1 \<le> 1\<close>,
  \<open>0 < x2 \<le> 1\<close> and \<open>mmin\<^sup>2 / mmax\<^sup>2 \<le> x1 x2 \<le> 1\<close> (over the reals).
\<close>

theorem hadronic_ps_gen_momentum_fractions:
  fixes mmin mmax r1 r2 r3 :: real
  assumes "0 < mmin" "mmin < mmax" "unit_draw r1" "unit_draw r2"
  shows "\<exists>p. hadronic_ps_gen mmin mmax (r1 ## r2 ## r3 ## g) = (Inr p, g) \<and>
             0 < ps_x1 p \<and> ps_x1 p \<le> 1 \<and> 0 < ps_x2 p \<and> ps_x2 p \<le> 1 \<and>
             mmin ^ 2 / mmax ^ 2 \<le> ps_x1 p * ps_x2 p \<and> ps_x1 p * ps_x2 p \<le> 1"
proof -
  define tau0 where "tau0 = mmin * mmin / (mmax * mmax)"
  define tau where "tau = tau0 powr r1"
  obtain p where gen: "hadronic_ps_gen mmin mmax (r1 ## r2 ## r3 ## g) = (Inr p, g)"
    and x1: "ps_x1 p = tau powr (1 - r2)"
    and x2: "ps_x2 p = tau / ps_x1 p"
    unfolding tau_def tau0_def by (rule hadronic_ps_gen_fields[OF assms(1,2)])
  have t0: "0 < tau0" "tau0 \<le> 1"
    unfolding tau0_def using tau0_bounds[OF assms(1,2)] by simp_all
  have r: "0 \<le> r1" "r1 \<le> 1" "0 \<le> r2" "r2 \<le> 1" "0 \<le> 1 - r2" "1 - r2 \<le> 1"
    using assms(3,4) by (simp_all add: unit_draw_def)
  have t: "0 < tau" "tau \<le> 1" "tau0 \<le> tau"
    unfolding tau_def using powr_unit_bounds[OF t0 r(1,2)] by simp_all
  have y: "0 < ps_x1 p" "ps_x1 p \<le> 1"
    unfolding x1 using powr_unit_bounds[OF t(1,2) r(5,6)] by simp_all
  have "ps_x2 p = tau powr 1 / tau powr (1 - r2)" using t(1) by (simp add: x2 x1)
  also have "\<dots> = tau powr (1 - (1 - r2))" by (rule powr_diff[symmetric])
  also have "\<dots> = tau powr r2" by simp
  finally have x2': "ps_x2 p = tau powr r2" .
  have z: "0 < ps_x2 p" "ps_x2 p \<le> 1"
    unfolding x2' using powr_unit_bounds[OF t(1,2) r(3,4)] by simp_all
  have prod: "ps_x1 p * ps_x2 p = tau" using y(1) by (simp add: x2)
  have "mmin ^ 2 / mmax ^ 2 = tau0" by (simp add: tau0_def power2_eq_square)
  with prod t have "mmin ^ 2 / mmax ^ 2 \<le> ps_x1 p * ps_x2 p" "ps_x1 p * ps_x2 p \<le> 1"
    by simp_all
  with gen y z show ?thesis by blast
qed

theorem hadronic_ps_gen_momentum_fractions_witness:
  "(0::real) < 10 \<and> (10::real) < 7000 \<and> unit_draw (1/2) \<and>
   (\<exists>p. hadronic_ps_gen 10 7000 (1/2 ## 1/2 ## 1/2 ## sconst 0) = (Inr p, sconst 0) \<and>
        0 < ps_x1 p \<and> ps_x1 p \<le> 1 \<and> 0 < ps_x2 p \<and> ps_x2 p \<le> 1 \<and>
        10 ^ 2 / 7000 ^ 2 \<le> ps_x1 p * ps_x2 p \<and> ps_x1 p * ps_x2 p \<le> 1)"
proof -
  have u: "unit_draw (1/2)" by (simp add: unit_draw_def)
  have "(0::real) < 10" "(10::real) < 7000" by simp_all
  from hadronic_ps_gen_momentum_fractions[OF this u u, of "1/2" "sconst 0"] u
  show ?thesis by simp
qed

text \<open>
  C4, as stated, fails: the jacobian carries the factor \<open>r1\<close>, and \<open>r1 = 0\<close> is a
  draw of \<open>[0, 1)\<close>. At the draws \<open>(0, 1/2, 1/2)\<close> the sampler returns the jacobian 0.
\<close>

theorem hadronic_ps_gen_jacobian_zero_counterexample:
  "unit_draw 0 \<and> unit_draw (1/2) \<and>
   hadronic_ps_gen 10 7000 (0 ## 1/2 ## 1/2 ## sconst 0) =
     (Inr \<lparr>ps_s = 49000000, ps_t = - 24500000, ps_u = - 24500000, ps_x1 = 1, ps_x2 = 1,
           ps_jacobian = Some 0\<rparr>, sconst 0)"
  by (simp add: unit_draw_def hadronic_ps_gen_def uniform_def py_div_def py_pow_def np_mul_def
      np_log_def)

text \<open>
  C4, amended. For every valid input and every draw in \<open>[0, 1)\<close> the jacobian is a
  finite number that is never negative, and it is strictly positive exactly when
  \<open>r1 > 0\<close>.
\<close>

theorem hadronic_ps_gen_jacobian_sign:
  fixes mmin mmax r1 r2 r3 :: real
  assumes "0 < mmin" "mmin < mmax" "unit_draw r1" "unit_draw r2" "unit_draw r3"
  shows "\<exists>p j. hadronic_ps_gen mmin mmax (r1 ## r2 ## r3 ## g) = (Inr p, g) \<and>
               ps_jacobian p = Some j \<and> 0 \<le> j \<and> (0 < j \<longleftrightarrow> 0 < r1)"
proof -
  define tau0 where "tau0 = mmin * mmin / (mmax * mmax)"
  define j where "j = tau0 powr r1 * ln tau0 * ln tau0 * r1 * 2 * (2 * pi)"
  obtain p where gen: "hadronic_ps_gen mmin mmax (r1 ## r2 ## r3 ## g) = (Inr p, g)"
    and jac: "ps_jacobian p = Some j"
    unfolding j_def tau0_def by (rule hadronic_ps_gen_fields[OF assms(1,2)])
  have t0: "0 < tau0" "tau0 < 1"
    unfolding tau0_def using tau0_bounds[OF assms(1,2)] by simp_all
  have l: "ln tau0 < 0" using t0 by simp
  define c where "c = tau0 powr r1 * (ln tau0 * ln tau0) * (2 * (2 * pi))"
  have c: "0 < c" unfolding c_def using t0 l by (simp add: mult_neg_neg)
  have j': "j = c * r1" by (simp add: j_def c_def)
  have "0 \<le> r1" using assms(3) by (simp add: unit_draw_def)
  then have "0 \<le> j" unfolding j' using c by simp
  moreover have "0 < j \<longleftrightarrow> 0 < r1" unfolding j' using c by (simp add: zero_less_mult_iff)
  ultimately show ?thesis using gen jac by blast
qed

theorem hadronic_ps_gen_jacobian_sign_witness:
  "(0::real) < 10 \<and> (10::real) < 7000 \<and> unit_draw (1/2) \<and>
   (\<exists>p j. hadronic_ps_gen 10 7000 (1/2 ## 1/2 ## 1/2 ## sconst 0) = (Inr p, sconst 0) \<and>
          ps_jacobian p = Some j \<and> 0 < j)"
proof -
  have u: "unit_draw (1/2)" by (simp add: unit_draw_def)
  have "(0::real) < 10" "(10::real) < 7000" by simp_all
  from hadronic_ps_gen_jacobian_sign[OF this u u u, of "sconst 0"] u
  show ?thesis by auto
qed

section \<open>The collinear boundary\<close>

text \<open>
  At a point with \<open>u = 0\<close> the transverse momentum is 0, the argument of both
  \<open>math.acosh\<close> calls is a division by zero, and the two lepton rapidities are not
  finite, whatever the rounding of the quotient.
\<close>

lemma build_observables_u0:
  assumes "ps_u p = 0" "ps_s p \<noteq> 0" "ps_x2 p \<noteq> 0"
  shows "build_observables fl p =
           Inr \<lparr>ptl = Some 0, mll = np_sqrt (ps_s p),
                yll = np_mul (Some 0.5) (np_log (ps_x1 p / ps_x2 p)),
                ylp = None, ylm = None\<rparr>"
  using assms
  by (simp add: build_observables_def py_div_def np_sqrt_def np_div_def np_mul_def math_acosh_def
      np_abs_def np_add_def np_sub_def Let_def split: option.splits)

text \<open>
  C10. On valid input the draw \<open>r3 = 0\<close> (\<open>cos \<theta> = -1\<close>) gives \<open>u = 0\<close> exactly,
  and with it \<open>ptl = sqrt (t u / s) = 0\<close> in the accumulator; \<open>t\<close> is strictly negative
  for every draw \<open>r3\<close> of \<open>[0, 1)\<close>.
\<close>

theorem hadronic_ps_gen_collinear_boundary:
  fixes mmin mmax r1 r2 :: real
  assumes "0 < mmin" "mmin < mmax" "unit_draw r1" "unit_draw r2"
  shows "(\<exists>p obs. hadronic_ps_gen mmin mmax (r1 ## r2 ## 0 ## g) = (Inr p, g) \<and>
                  ps_u p = 0 \<and> build_observables fl p = Inr obs \<and> ptl obs = Some 0) \<and>
         (\<forall>r3. unit_draw r3 \<longrightarrow>
            (\<exists>p. hadronic_ps_gen mmin mmax (r1 ## r2 ## r3 ## g) = (Inr p, g) \<and> ps_t p < 0))"
proof (intro conjI allI impI)
  obtain p where p: "hadronic_ps_gen mmin mmax (r1 ## r2 ## 0 ## g) = (Inr p, g)"
    "0 < ps_s p" "0 < ps_x2 p" "ps_u p = - 0.5 * ps_s p * (1 + (2 * 0 - 1))"
    by (rule hadronic_ps_gen_positive[OF assms(1,2)])
  have u: "ps_u p = 0" using p(4) by simp
  have "build_observables fl p =
          Inr \<lparr>ptl = Some 0, mll = np_sqrt (ps_s p),
               yll = np_mul (Some 0.5) (np_log (ps_x1 p / ps_x2 p)), ylp = None, ylm = None\<rparr>"
    using u p(2,3) by (intro build_observables_u0) simp_all
  with p(1) u
  show "\<exists>p obs. hadronic_ps_gen mmin mmax (r1 ## r2 ## 0 ## g) = (Inr p, g) \<and>
                 ps_u p = 0 \<and> build_observables fl p = Inr obs \<and> ptl obs = Some 0"
    by force
next
  fix r3 :: real
  assume "unit_draw r3"
  then have c: "0 < 1 - (2 * r3 - 1)" by (simp add: unit_draw_def)
  obtain p where p: "hadronic_ps_gen mmin mmax (r1 ## r2 ## r3 ## g) = (Inr p, g)"
    "0 < ps_s p" "ps_t p = - 0.5 * ps_s p * (1 - (2 * r3 - 1))"
    by (rule hadronic_ps_gen_positive[OF assms(1,2)])
  have "0 < 0.5 * ps_s p * (1 - (2 * r3 - 1))" using p(2) c by simp
  then have "ps_t p < 0" unfolding p(3) by simp
  with p(1) show "\<exists>p. hadronic_ps_gen mmin mmax (r1 ## r2 ## r3 ## g) = (Inr p, g) \<and> ps_t p < 0"
    by blast
qed

theorem hadronic_ps_gen_collinear_boundary_witness:
  "(0::real) < 10 \<and> (10::real) < 7000 \<and> unit_draw (1/2) \<and> unit_draw 0 \<and>
   (\<exists>p obs. hadronic_ps_gen 10 7000 (1/2 ## 1/2 ## 0 ## sconst 0) = (Inr p, sconst 0) \<and>
            ps_u p = 0 \<and> build_observables id p = Inr obs \<and> ptl obs = Some 0) \<and>
   (\<exists>p. hadronic_ps_gen 10 7000 (1/2 ## 1/2 ## 0 ## sconst 0) = (Inr p, sconst 0) \<and> ps_t p < 0)"
proof -
  have u: "unit_draw (1/2)" and z: "unit_draw 0" by (simp_all add: unit_draw_def)
  have h: "(0::real) < 10" "(10::real) < 7000" by simp_all
  note both = hadronic_ps_gen_collinear_boundary[OF h u u, of "sconst 0" id]
  have a: "\<exists>p obs. hadronic_ps_gen 10 7000 (1/2 ## 1/2 ## 0 ## sconst 0) = (Inr p, sconst 0) \<and>
            ps_u p = 0 \<and> build_observables id p = Inr obs \<and> ptl obs = Some 0"
    by (rule both[THEN conjunct1])
  have b: "\<exists>p. hadronic_ps_gen 10 7000 (1/2 ## 1/2 ## 0 ## sconst 0) = (Inr p, sconst 0) \<and>
            ps_t p < 0"
    by (rule both[THEN conjunct2, rule_format, OF z])
  show ?thesis using h u z a b by (intro conjI)
qed

section \<open>The grid that is created\<close>

lemma np_arange_rapidity:
  "np_arange 0 2.4 0.1 =
     [0, 0.1, 0.2, 0.3, 0.4, 0.5, 0.6, 0.7, 0.8, 0.9, 1.0, 1.1, 1.2, 1.3, 1.4, 1.5, 1.6, 1.7,
      1.8, 1.9, 2.0, 2.1, 2.2, 2.3]"
  by (simp add: np_arange_def upt_rec)

lemma fill_loop_bin_limits:
  "bin_limits (snd (fst (fill_loop fl cuts me calls n gr g))) = bin_limits gr"
  by (induction n arbitrary: gr g)
     (simp_all add: Grid_fill_def split: prod.splits sum.splits option.splits)

lemma generate_grid_bin_limits:
  assumes "fst (generate_grid fl cuts me calls g) = Inr gr"
  shows "bin_limits gr = np_arange 0 2.4 0.1"
proof -
  let ?gr = "Grid_create [[(22, 22, 1)]] [(0, 2, 0, 0)] (np_arange 0 2.4 0.1)"
  from assms have "gr = snd (fst (fill_grid fl cuts me ?gr calls g))"
    by (simp add: generate_grid_def Let_def split: prod.splits option.splits)
  then show ?thesis by (simp add: fill_grid_def fill_loop_bin_limits Grid_create_def)
qed

text \<open>
  C3 says that the histogram has 24 bins with the limits 0.0, 0.1, ..., 2.4. The limits
  that \<open>generate_grid\<close> hands to the grid are \<open>np.arange(0, 2.4, 0.1)\<close>: 24 numbers from
  0.0 to 2.3, which bound 23 bins. The limit 2.4 and the bin from 2.3 to 2.4 are missing,
  for every value of \<open>calls\<close> (\<open>generate_grid_bin_limits\<close>); the run without trials
  shows them.
\<close>

theorem generate_grid_rapidity_bins:
  "fst (generate_grid id cuts_placeholder photon_photon_matrix_element 0 (sconst 0)) =
     Inr (Grid_create [[(22, 22, 1)]] [(0, 2, 0, 0)] (np_arange 0 2.4 0.1)) \<and>
   np_arange 0 2.4 0.1 =
     [0, 0.1, 0.2, 0.3, 0.4, 0.5, 0.6, 0.7, 0.8, 0.9, 1.0, 1.1, 1.2, 1.3, 1.4, 1.5, 1.6, 1.7,
      1.8, 1.9, 2.0, 2.1, 2.2, 2.3] \<and>
   length (grid_bins (Grid_create [[(22, 22, 1)]] [(0, 2, 0, 0)] (np_arange 0 2.4 0.1))) = 23 \<and>
   last (grid_bins (Grid_create [[(22, 22, 1)]] [(0, 2, 0, 0)] (np_arange 0 2.4 0.1))) = (2.2, 2.3) \<and>
   2.4 \<notin> set (np_arange 0 2.4 0.1)"
proof (intro conjI)
  show "fst (generate_grid id cuts_placeholder photon_photon_matrix_element 0 (sconst 0)) =
     Inr (Grid_create [[(22, 22, 1)]] [(0, 2, 0, 0)] (np_arange 0 2.4 0.1))"
    by (simp add: generate_grid_def fill_grid_def)
  show "np_arange 0 2.4 0.1 =
     [0, 0.1, 0.2, 0.3, 0.4, 0.5, 0.6, 0.7, 0.8, 0.9, 1.0, 1.1, 1.2, 1.3, 1.4, 1.5, 1.6, 1.7,
      1.8, 1.9, 2.0, 2.1, 2.2, 2.3]"
    by (rule np_arange_rapidity)
  show "length (grid_bins (Grid_create [[(22, 22, 1)]] [(0, 2, 0, 0)] (np_arange 0 2.4 0.1))) = 23"
    unfolding np_arange_rapidity by (simp add: grid_bins_def Grid_create_def)
  show "last (grid_bins (Grid_create [[(22, 22, 1)]] [(0, 2, 0, 0)] (np_arange 0 2.4 0.1))) = (2.2, 2.3)"
    unfolding np_arange_rapidity by (simp add: grid_bins_def Grid_create_def)
  show "2.4 \<notin> set (np_arange 0 2.4 0.1)"
    unfolding np_arange_rapidity by simp
qed

text \<open>
  C8, as stated, fails: \<open>generate_grid\<close> with \<open>calls = 0\<close> or \<open>calls = -1\<close> raises
  nothing and returns the grid it has created, and the sampler called with
  \<open>mmin = 7000 > mmax = 10\<close> returns a point.
\<close>

theorem generate_grid_no_error_counterexample:
  "generate_grid id cuts_placeholder photon_photon_matrix_element 0 (sconst 0) =
     (Inr \<lparr>lumi_entries = [[(22, 22, 1)]], orders = [(0, 2, 0, 0)],
           bin_limits = np_arange 0 2.4 0.1, fills = []\<rparr>, sconst 0) \<and>
   generate_grid id cuts_placeholder photon_photon_matrix_element (- 1) (sconst 0) =
     (Inr \<lparr>lumi_entries = [[(22, 22, 1)]], orders = [(0, 2, 0, 0)],
           bin_limits = np_arange 0 2.4 0.1, fills = []\<rparr>, sconst 0) \<and>
   \<not> isl (fst (hadronic_ps_gen 7000 10 (1/2 ## 1/2 ## 1/2 ## sconst 0)))"
proof (intro conjI)
  show "generate_grid id cuts_placeholder photon_photon_matrix_element 0 (sconst 0) =
     (Inr \<lparr>lumi_entries = [[(22, 22, 1)]], orders = [(0, 2, 0, 0)],
           bin_limits = np_arange 0 2.4 0.1, fills = []\<rparr>, sconst 0)"
    by (simp add: generate_grid_def fill_grid_def Grid_create_def)
  show "generate_grid id cuts_placeholder photon_photon_matrix_element (- 1) (sconst 0) =
     (Inr \<lparr>lumi_entries = [[(22, 22, 1)]], orders = [(0, 2, 0, 0)],
           bin_limits = np_arange 0 2.4 0.1, fills = []\<rparr>, sconst 0)"
    by (simp add: generate_grid_def fill_grid_def Grid_create_def)
  show "\<not> isl (fst (hadronic_ps_gen 7000 10 (1/2 ## 1/2 ## 1/2 ## sconst 0)))"
    by (simp add: hadronic_ps_gen_def uniform_def py_div_def py_pow_def)
qed

text \<open>
  C8, amended. \<open>generate_grid\<close> has \<open>calls\<close> as its only argument (the masses 10 and
  7000 and the bin limits are constants of the code) and validates nothing. With
  \<open>calls \<le> 0\<close> it returns the grid as created, without an exception: no trial has run,
  no random number has been read and the grid has no fill.
\<close>

theorem generate_grid_no_validation:
  assumes "calls \<le> 0"
  shows "generate_grid fl cuts me calls g =
           (Inr \<lparr>lumi_entries = [[(22, 22, 1)]], orders = [(0, 2, 0, 0)],
                 bin_limits = np_arange 0 2.4 0.1, fills = []\<rparr>, g)"
  using assms by (simp add: generate_grid_def fill_grid_def Grid_create_def)

theorem generate_grid_no_validation_witness:
  "(- 5 :: int) \<le> 0 \<and>
   generate_grid id cuts_placeholder photon_photon_matrix_element (- 5) (sconst (1/2)) =
     (Inr \<lparr>lumi_entries = [[(22, 22, 1)]], orders = [(0, 2, 0, 0)],
           bin_limits = np_arange 0 2.4 0.1, fills = []\<rparr>, sconst (1/2))"
proof -
  have h: "(- 5 :: int) \<le> 0" by simp
  show ?thesis
    using h generate_grid_no_validation[OF h, of id cuts_placeholder photon_photon_matrix_element]
    by (intro conjI)
qed

section \<open>The matrix element as the notebook has it\<close>

text \<open>
  C2 says that the function returns \<open>(\<alpha>\<^sub>0\<^sup>2 / (2s)) \<sqdot> (t/u + u/t)\<close>, a positive float at
  \<open>s = 100\<close>, \<open>t = -40\<close>, \<open>u = -60\<close>, as the notebook's own text above the function
  and its annotation \<^verbatim>\<open>-> float\<close> do. The function returns \<open>None\<close> there, as it does
  everywhere.
\<close>

theorem photon_photon_matrix_element_returns_none:
  "photon_photon_matrix_element 100 (- 40) (- 60) = Inr PyNone"
  by (simp add: photon_photon_matrix_element_def)



section \<open>The trials of the accumulator\<close>







end
